theory Spec2Isabelle
  imports Complex_Main
begin

section \<open>Exceptions and JSON values\<close>

text \<open>
  The exceptions of \<^verbatim>\<open>train.py\<close> as values. A function of the script that can raise
  returns \<open>error + 'a\<close>, with \<open>Inl\<close> the exception that leaves it. The string carried by
  \<open>IndexError\<close>, \<open>FileNotFoundError\<close>, \<open>KeyError\<close> and \<open>UnboundLocalError\<close> is the
  message (for the last two: the key and the variable).
\<close>

datatype error =
    JSONDecodeError
  | IndexError string
  | FileNotFoundError string
  | KeyError string
  | TypeError
  | ValueError
  | ZeroDivisionError
  | UnboundLocalError string

text \<open>
  What \<^verbatim>\<open>json.loads\<close> returns. An object is a Python \<^verbatim>\<open>dict\<close>, kept as an
  association list read with \<open>map_of\<close>.
\<close>

datatype json =
    JNull
  | JBool bool
  | JInt int
  | JFloat rat
  | JStr string
  | JArr "json list"
  | JObj "(string \<times> json) list"

text \<open>
  \<^verbatim>\<open>data[key]\<close> for a string key: a dict raises \<^verbatim>\<open>KeyError\<close> on a missing key, every
  other JSON value raises \<^verbatim>\<open>TypeError\<close> (a list or string wants an integer index, a
  number, a boolean and \<^verbatim>\<open>None\<close> are not subscriptable).
\<close>

fun subscript :: "json \<Rightarrow> string \<Rightarrow> error + json" where
  "subscript (JObj kvs) k = (case map_of kvs k of None \<Rightarrow> Inl (KeyError k) | Some v \<Rightarrow> Inr v)"
| "subscript _ k = Inl TypeError"

text \<open>
  \<^verbatim>\<open>os.path.join(a, b)\<close> of \<^verbatim>\<open>posixpath\<close> for two strings: an absolute \<open>b\<close> replaces
  \<open>a\<close>; otherwise a separator is put between them unless \<open>a\<close> is empty or ends with one.
\<close>

definition os_path_join :: "string \<Rightarrow> string \<Rightarrow> string" where
  "os_path_join a b =
     (if b \<noteq> [] \<and> hd b = CHR ''/'' then b
      else if a = [] \<or> last a = CHR ''/'' then a @ b
      else a @ ''/'' @ b)"

section \<open>JSONLDataset\<close>

record JSONLDataset =
  jsonl_file_path :: string
  image_directory_path :: string
  entries :: "json list"

text \<open>
  The loop of \<^verbatim>\<open>_load_entries\<close> over the lines of the file. \<open>loads\<close> is
  \<^verbatim>\<open>json.loads\<close>, with \<open>None\<close> where it raises \<^verbatim>\<open>json.JSONDecodeError\<close>; \<open>acc\<close> is
  the local list \<^verbatim>\<open>entries\<close>. The first line that does not parse ends the loop with the
  exception.
\<close>

fun load_loop :: "(string \<Rightarrow> json option) \<Rightarrow> json list \<Rightarrow> string list \<Rightarrow> error + json list" where
  "load_loop loads acc [] = Inr acc"
| "load_loop loads acc (line # rest) =
     (case loads line of
        None \<Rightarrow> Inl JSONDecodeError
      | Some data \<Rightarrow> load_loop loads (acc @ [data]) rest)"

text \<open>
  The message of the \<^verbatim>\<open>FileNotFoundError\<close> that the builtin \<^verbatim>\<open>open\<close> raises: the path
  follows in single quotes (its \<^verbatim>\<open>repr\<close>, for a path without quotes or escapes).
\<close>

definition errno2 :: "string \<Rightarrow> string" where
  "errno2 path = ''[Errno 2] No such file or directory: '' @ [CHR 0x27] @ path @ [CHR 0x27]"

text \<open>
  \<^verbatim>\<open>_load_entries\<close>: \<open>files\<close> is the file system read by \<^verbatim>\<open>open(path, 'r')\<close>, a file
  being the list of its lines as the iteration over the file object yields them.
\<close>

definition load_entries ::
  "(string \<rightharpoonup> string list) \<Rightarrow> (string \<Rightarrow> json option) \<Rightarrow> string \<Rightarrow> error + json list" where
  "load_entries files loads path =
     (case files path of
        None \<Rightarrow> Inl (FileNotFoundError (errno2 path))
      | Some file \<Rightarrow> load_loop loads [] file)"

text \<open>\<^verbatim>\<open>JSONLDataset.__init__\<close>: no object exists when \<^verbatim>\<open>_load_entries\<close> raises.\<close>

definition JSONLDataset_init ::
  "(string \<rightharpoonup> string list) \<Rightarrow> (string \<Rightarrow> json option) \<Rightarrow> string \<Rightarrow> string
     \<Rightarrow> error + JSONLDataset" where
  "JSONLDataset_init files loads path dir =
     (case load_entries files loads path of
        Inl e \<Rightarrow> Inl e
      | Inr es \<Rightarrow> Inr \<lparr>jsonl_file_path = path, image_directory_path = dir, entries = es\<rparr>)"

text \<open>
  A method runs on a state: the object \<open>self\<close> and the log \<open>opened\<close> of the paths handed
  to \<^verbatim>\<open>Image.open\<close> so far (oldest first). It returns its result, or the exception, and
  the state it leaves.
\<close>

record 'o ostate =
  self :: 'o
  opened :: "string list"

definition JSONLDataset_len :: "JSONLDataset ostate \<Rightarrow> int \<times> JSONLDataset ostate" where
  "JSONLDataset_len st = (int (length (entries (self st))), st)"

text \<open>
  \<^verbatim>\<open>JSONLDataset.__getitem__\<close>. \<open>image_open\<close> is \<^verbatim>\<open>Image.open\<close>, which returns an
  image or raises; the handler of the \<^verbatim>\<open>try\<close> takes a \<^verbatim>\<open>FileNotFoundError\<close> only and
  raises a new one with the script's message, any other exception of \<^verbatim>\<open>Image.open\<close>
  passes through. \<^verbatim>\<open>os.path.join\<close> raises \<^verbatim>\<open>TypeError\<close> on a name that is not a
  string.
\<close>

definition JSONLDataset_getitem ::
  "(string \<Rightarrow> error + 'img) \<Rightarrow> int \<Rightarrow> JSONLDataset ostate
     \<Rightarrow> (error + ('img \<times> json)) \<times> JSONLDataset ostate" where
  "JSONLDataset_getitem image_open idx st =
     (if idx < 0 \<or> idx \<ge> int (length (entries (self st)))
      then (Inl (IndexError ''Index out of range''), st)
      else
        let entry = entries (self st) ! nat idx in
        case subscript entry ''image'' of
          Inl e \<Rightarrow> (Inl e, st)
        | Inr (JStr name) \<Rightarrow>
            let image_path = os_path_join (image_directory_path (self st)) name;
                st' = st\<lparr>opened := opened st @ [image_path]\<rparr>
            in (case image_open image_path of
                  Inr img \<Rightarrow> (Inr (img, entry), st')
                | Inl (FileNotFoundError m) \<Rightarrow>
                    (Inl (FileNotFoundError (''Image file '' @ image_path @ '' not found.'')), st')
                | Inl e \<Rightarrow> (Inl e, st'))
        | Inr _ \<Rightarrow> (Inl TypeError, st))"

section \<open>DetectionDataset\<close>

record DetectionDataset =
  dataset :: JSONLDataset

definition DetectionDataset_init ::
  "(string \<rightharpoonup> string list) \<Rightarrow> (string \<Rightarrow> json option) \<Rightarrow> string \<Rightarrow> string
     \<Rightarrow> error + DetectionDataset" where
  "DetectionDataset_init files loads path dir =
     (case JSONLDataset_init files loads path dir of
        Inl e \<Rightarrow> Inl e
      | Inr d \<Rightarrow> Inr \<lparr>dataset = d\<rparr>)"

text \<open>
  The wrapper's methods call those of the wrapped object \<^verbatim>\<open>self.dataset\<close>: the inner
  method runs on the inner object, and the object it leaves is put back as the field.
\<close>

definition inner :: "DetectionDataset ostate \<Rightarrow> JSONLDataset ostate" where
  "inner st = \<lparr>self = dataset (self st), opened = opened st\<rparr>"

definition outer :: "DetectionDataset ostate \<Rightarrow> JSONLDataset ostate \<Rightarrow> DetectionDataset ostate" where
  "outer st ist = \<lparr>self = (self st)\<lparr>dataset := self ist\<rparr>, opened = opened ist\<rparr>"

definition DetectionDataset_len :: "DetectionDataset ostate \<Rightarrow> int \<times> DetectionDataset ostate" where
  "DetectionDataset_len st =
     (case JSONLDataset_len (inner st) of (n, ist) \<Rightarrow> (n, outer st ist))"

definition DetectionDataset_getitem ::
  "(string \<Rightarrow> error + 'img) \<Rightarrow> int \<Rightarrow> DetectionDataset ostate
     \<Rightarrow> (error + (json \<times> json \<times> 'img)) \<times> DetectionDataset ostate" where
  "DetectionDataset_getitem image_open idx st =
     (case JSONLDataset_getitem image_open idx (inner st) of
        (Inl e, ist) \<Rightarrow> (Inl e, outer st ist)
      | (Inr (img, data), ist) \<Rightarrow>
          (case subscript data ''prefix'' of
             Inl e \<Rightarrow> (Inl e, outer st ist)
           | Inr prefix \<Rightarrow>
               (case subscript data ''suffix'' of
                  Inl e \<Rightarrow> (Inl e, outer st ist)
                | Inr suffix \<Rightarrow> (Inr (prefix, suffix, img), outer st ist))))"

section \<open>collate_fn\<close>

text \<open>
  What the processor returns, read in the loops as \<^verbatim>\<open>inputs["input_ids"]\<close> and
  \<^verbatim>\<open>inputs["pixel_values"]\<close>. The tensors are kept abstract.
\<close>

record ('ids, 'px) inputs =
  input_ids :: 'ids
  pixel_values :: 'px

text \<open>
  \<^verbatim>\<open>collate_fn\<close>. \<open>processor\<close> is the call
  \<^verbatim>\<open>processor(text=..., images=..., return_tensors="pt", padding=True).to(DEVICE)\<close>.
  \<^verbatim>\<open>zip(*batch)\<close> of an empty batch yields nothing, and unpacking it into three names
  raises \<^verbatim>\<open>ValueError\<close>. The tuple \<^verbatim>\<open>answers\<close> is kept as a list.
\<close>

definition collate_fn ::
  "(json list \<Rightarrow> 'img list \<Rightarrow> ('ids, 'px) inputs) \<Rightarrow> (json \<times> json \<times> 'img) list
     \<Rightarrow> error + (('ids, 'px) inputs \<times> json list)" where
  "collate_fn processor batch =
     (if batch = [] then Inl ValueError
      else
        let questions = map fst batch;
            answers = map (fst \<circ> snd) batch;
            images = map (snd \<circ> snd) batch;
            inputs = processor questions images
        in Inr (inputs, answers))"

section \<open>train_model\<close>

text \<open>
  The calls of \<^verbatim>\<open>train_model\<close> into the framework and the operating system, in the
  order they are made. \<open>Forward\<close> carries the arguments of the call of the model and the
  loss it returned (\<^verbatim>\<open>outputs.loss\<close>, read by \<^verbatim>\<open>loss.item()\<close>); the loss is a Python
  float, taken as an exact rational here, so rounding is outside the model.
  \<open>GetScheduler\<close> carries the name, the warmup steps and the training steps;
  \<open>Makedirs\<close> is \<^verbatim>\<open>os.makedirs(path, exist_ok=True)\<close>, which creates the directory when
  it is absent; \<open>AccumulateEnter\<close> and \<open>AccumulateExit\<close> are the two ends of
  \<^verbatim>\<open>with accelerator.accumulate(model)\<close>, \<open>NoGradEnter\<close> and \<open>NoGradExit\<close> those of
  \<^verbatim>\<open>with torch.no_grad()\<close>. The progress bar of \<^verbatim>\<open>tqdm\<close> hands the batches of the
  loader through unchanged and is left out.
\<close>

datatype ('ids, 'px, 'lab) event =
    CreateOptimizer rat
  | GetScheduler string nat nat
  | Prepare
  | ModelTrain
  | AccumulateEnter
  | Tokenize "json list"
  | Forward 'ids 'px 'lab rat
  | Backward rat
  | OptimizerStep
  | SchedulerStep
  | ZeroGrad
  | AccumulateExit
  | PrintTrainLoss rat
  | ModelEval
  | NoGradEnter
  | PrintValLoss rat
  | NoGradExit
  | Makedirs string
  | SaveModel string

text \<open>
  The framework, as far as the loops see it: the tokenizer of the processor, and the loss
  the model returns. The weights, the optimizer and the scheduler are state of the
  framework, changed by the calls made so far; the loss is therefore a function of the
  calls made before it and of the arguments.
\<close>

record ('ids, 'px, 'lab) framework =
  tokenizer :: "json list \<Rightarrow> 'lab"
  model_loss :: "('ids, 'px, 'lab) event list \<Rightarrow> 'ids \<Rightarrow> 'px \<Rightarrow> 'lab \<Rightarrow> rat"

text \<open>
  A loader, as \<^verbatim>\<open>train_model\<close> uses it: \<^verbatim>\<open>len(loader)\<close>, and the iteration over it.
  \<open>loader_iter l k\<close> is what the \<open>k\<close>-th iteration over \<open>l\<close> yields (one iteration per
  epoch): the batches in order, an \<open>Inl\<close> being an exception raised while the next batch
  is fetched.
\<close>

record 'b loader =
  loader_len :: nat
  loader_iter :: "nat \<Rightarrow> (error + 'b) list"

text \<open>
  The local variables of \<^verbatim>\<open>train_model\<close> that live across statements, and the calls
  made so far. \<open>avg_train_loss\<close> is \<open>None\<close> until its first assignment.
\<close>

record ('ids, 'px, 'lab) tstate =
  trace :: "('ids, 'px, 'lab) event list"
  train_loss :: rat
  val_loss :: rat
  avg_train_loss :: "rat option"

definition output_dir :: string where
  "output_dir = ''./model_checkpoints''"

text \<open>The decimal digits of \<^verbatim>\<open>epoch + 1\<close> in the f-string, a positive integer.\<close>

definition digit :: "nat \<Rightarrow> char" where
  "digit d = char_of (48 + d)"

function str_nat :: "nat \<Rightarrow> string" where
  "str_nat n = (if n < 10 then [digit n] else str_nat (n div 10) @ [digit (n mod 10)])"
  by pat_completeness auto
termination
  by (relation "measure id") auto

declare str_nat.simps [simp del]

text \<open>
  The body of the training loop, lines 122 to 141, for one batch. The division of line 141
  raises \<^verbatim>\<open>ZeroDivisionError\<close> when \<^verbatim>\<open>len(train_loader)\<close> is 0.
\<close>

definition train_batch ::
  "('ids, 'px, 'lab) framework \<Rightarrow> nat \<Rightarrow> ('ids, 'px, 'lab) tstate
     \<Rightarrow> ('ids, 'px) inputs \<times> json list \<Rightarrow> error + ('ids, 'px, 'lab) tstate" where
  "train_batch fw len_train_loader st b =
     (case b of (inputs, answers) \<Rightarrow>
        let ids = input_ids inputs;
            px = pixel_values inputs;
            t1 = trace st @ [AccumulateEnter, Tokenize answers];
            labels = tokenizer fw answers;
            loss = model_loss fw t1 ids px labels;
            t2 = t1 @ [Forward ids px labels loss, Backward loss, OptimizerStep,
                       SchedulerStep, ZeroGrad];
            train_loss' = train_loss st + loss
        in if len_train_loader = 0 then Inl ZeroDivisionError
           else Inr (st\<lparr>trace := t2 @ [AccumulateExit],
                        train_loss := train_loss',
                        avg_train_loss := Some (train_loss' / of_nat len_train_loader)\<rparr>))"

fun train_loop ::
  "('ids, 'px, 'lab) framework \<Rightarrow> nat \<Rightarrow> ('ids, 'px, 'lab) tstate
     \<Rightarrow> (error + ('ids, 'px) inputs \<times> json list) list \<Rightarrow> error + ('ids, 'px, 'lab) tstate" where
  "train_loop fw n st [] = Inr st"
| "train_loop fw n st (Inl e # bs) = Inl e"
| "train_loop fw n st (Inr b # bs) =
     (case train_batch fw n st b of
        Inl e \<Rightarrow> Inl e
      | Inr st' \<Rightarrow> train_loop fw n st' bs)"

text \<open>The body of the validation loop, lines 150 to 162, for one batch.\<close>

definition val_batch ::
  "('ids, 'px, 'lab) framework \<Rightarrow> ('ids, 'px, 'lab) tstate
     \<Rightarrow> ('ids, 'px) inputs \<times> json list \<Rightarrow> ('ids, 'px, 'lab) tstate" where
  "val_batch fw st b =
     (case b of (inputs, answers) \<Rightarrow>
        let ids = input_ids inputs;
            px = pixel_values inputs;
            t1 = trace st @ [Tokenize answers];
            labels = tokenizer fw answers;
            loss = model_loss fw t1 ids px labels
        in st\<lparr>trace := t1 @ [Forward ids px labels loss],
               val_loss := val_loss st + loss\<rparr>)"

fun val_loop ::
  "('ids, 'px, 'lab) framework \<Rightarrow> ('ids, 'px, 'lab) tstate
     \<Rightarrow> (error + ('ids, 'px) inputs \<times> json list) list \<Rightarrow> error + ('ids, 'px, 'lab) tstate" where
  "val_loop fw st [] = Inr st"
| "val_loop fw st (Inl e # bs) = Inl e"
| "val_loop fw st (Inr b # bs) = val_loop fw (val_batch fw st b) bs"

text \<open>
  The body of the loop over the epochs, lines 119 to 170. The print of line 143 reads
  \<^verbatim>\<open>avg_train_loss\<close>, unbound when no batch has assigned it; line 164 divides by
  \<^verbatim>\<open>len(val_loader)\<close>.
\<close>

definition run_epoch ::
  "('ids, 'px, 'lab) framework \<Rightarrow> (('ids, 'px) inputs \<times> json list) loader
     \<Rightarrow> (('ids, 'px) inputs \<times> json list) loader \<Rightarrow> ('ids, 'px, 'lab) tstate \<Rightarrow> nat
     \<Rightarrow> error + ('ids, 'px, 'lab) tstate" where
  "run_epoch fw train_loader val_loader st epoch =
     (let st1 = st\<lparr>trace := trace st @ [ModelTrain], train_loss := 0\<rparr> in
      case train_loop fw (loader_len train_loader) st1 (loader_iter train_loader epoch) of
        Inl e \<Rightarrow> Inl e
      | Inr st2 \<Rightarrow>
          (case avg_train_loss st2 of
             None \<Rightarrow> Inl (UnboundLocalError ''avg_train_loss'')
           | Some avg \<Rightarrow>
               let st3 = st2\<lparr>trace := trace st2 @ [PrintTrainLoss avg, ModelEval, NoGradEnter],
                              val_loss := 0\<rparr> in
               (case val_loop fw st3 (loader_iter val_loader epoch) of
                  Inl e \<Rightarrow> Inl e
                | Inr st4 \<Rightarrow>
                    if loader_len val_loader = 0 then Inl ZeroDivisionError
                    else
                      let avg_val_loss = val_loss st4 / of_nat (loader_len val_loader);
                          weights_output_dir = output_dir @ ''/epoch_'' @ str_nat (epoch + 1)
                      in Inr (st4\<lparr>trace := trace st4 @
                                [PrintValLoss avg_val_loss, NoGradExit,
                                 Makedirs weights_output_dir, SaveModel weights_output_dir]\<rparr>))))"

fun epoch_loop ::
  "('ids, 'px, 'lab) framework \<Rightarrow> (('ids, 'px) inputs \<times> json list) loader
     \<Rightarrow> (('ids, 'px) inputs \<times> json list) loader \<Rightarrow> ('ids, 'px, 'lab) tstate \<Rightarrow> nat list
     \<Rightarrow> error + ('ids, 'px, 'lab) tstate" where
  "epoch_loop fw train_loader val_loader st [] = Inr st"
| "epoch_loop fw train_loader val_loader st (epoch # rest) =
     (case run_epoch fw train_loader val_loader st epoch of
        Inl e \<Rightarrow> Inl e
      | Inr st' \<Rightarrow> epoch_loop fw train_loader val_loader st' rest)"

text \<open>
  \<^verbatim>\<open>train_model\<close>: \<open>epochs\<close> is a count, \<^verbatim>\<open>range(epochs)\<close> the epochs \<open>0\<close> to
  \<open>epochs - 1\<close>. \<^verbatim>\<open>train_loss\<close> and \<^verbatim>\<open>val_loss\<close> are assigned at the start of each
  phase before they are read, so their value before the loop does not matter. The run
  returns the final state, or the exception that ended it.
\<close>

definition train_model ::
  "('ids, 'px, 'lab) framework \<Rightarrow> (('ids, 'px) inputs \<times> json list) loader
     \<Rightarrow> (('ids, 'px) inputs \<times> json list) loader \<Rightarrow> nat \<Rightarrow> rat
     \<Rightarrow> error + ('ids, 'px, 'lab) tstate" where
  "train_model fw train_loader val_loader epochs lr =
     (let num_training_steps = epochs * loader_len train_loader;
          st0 = \<lparr>trace = [CreateOptimizer lr, GetScheduler ''linear'' 12 num_training_steps,
                           Prepare],
                 train_loss = 0, val_loss = 0, avg_train_loss = None\<rparr>
      in epoch_loop fw train_loader val_loader st0 [0..<epochs])"

section \<open>The script\<close>

text \<open>
  The constants of the module. \<^verbatim>\<open>epochs\<close> and \<^verbatim>\<open>learning_rate\<close> carry the prefix
  \<open>global\<close> here, to keep them apart from the parameters of \<^verbatim>\<open>train_model\<close>.
\<close>

definition BATCH_SIZE :: nat where
  "BATCH_SIZE = 4"

definition global_epochs :: nat where
  "global_epochs = 8"

definition global_learning_rate :: rat where
  "global_learning_rate = 5 / 1000000"

definition img_dir :: string where
  "img_dir = ''./images''"

definition train_labels :: string where
  "train_labels = ''./annotations/train.jsonl''"

definition test_labels :: string where
  "test_labels = ''./annotations/test.jsonl''"

text \<open>
  The statements of the module from line 91 on: the two datasets are built, then the two
  loaders, then \<^verbatim>\<open>train_model\<close> is called. No statement of the module stands in a
  \<^verbatim>\<open>try\<close>, so an exception of any of them ends the script. \<open>DataLoader\<close> is the
  constructor of the class of that name of \<^verbatim>\<open>torch\<close>, with the dataset, the batch size
  and \<^verbatim>\<open>shuffle\<close> as arguments (\<^verbatim>\<open>collate_fn\<close> and \<^verbatim>\<open>num_workers\<close> are the same in
  both calls); the loaders it returns fetch their batches through
  \<^verbatim>\<open>DetectionDataset.__getitem__\<close> and \<^verbatim>\<open>collate_fn\<close>. The accelerator of line 36,
  created with \<^verbatim>\<open>gradient_accumulation_steps=2\<close>, and the pretrained model and the
  processor of lines 39 to 42 are the framework \<open>fw\<close>.
\<close>

definition script ::
  "(string \<rightharpoonup> string list) \<Rightarrow> (string \<Rightarrow> json option)
     \<Rightarrow> (DetectionDataset \<Rightarrow> nat \<Rightarrow> bool \<Rightarrow> (('ids, 'px) inputs \<times> json list) loader)
     \<Rightarrow> ('ids, 'px, 'lab) framework \<Rightarrow> error + ('ids, 'px, 'lab) tstate" where
  "script files loads DataLoader fw =
     (case DetectionDataset_init files loads train_labels img_dir of
        Inl e \<Rightarrow> Inl e
      | Inr train_dataset \<Rightarrow>
          (case DetectionDataset_init files loads test_labels img_dir of
             Inl e \<Rightarrow> Inl e
           | Inr test_dataset \<Rightarrow>
               let train_loader = DataLoader train_dataset BATCH_SIZE True;
                   test_loader = DataLoader test_dataset BATCH_SIZE False
               in train_model fw train_loader test_loader global_epochs global_learning_rate))"

section \<open>The trace of a run\<close>

text \<open>
  The properties of \<^verbatim>\<open>train_model\<close> are stated on the trace that a run leaves. The
  following definitions describe traces; they take no part in the model above.

  The calls made for one training batch whose forward pass returned the loss \<open>l\<close>, in
  the order of lines 122 to 138.
\<close>

definition train_batch_events ::
  "('ids, 'px, 'lab) framework \<Rightarrow> ('ids, 'px) inputs \<times> json list \<Rightarrow> rat \<Rightarrow> ('ids, 'px, 'lab) event list" where
  "train_batch_events fw b l =
     [AccumulateEnter, Tokenize (snd b),
      Forward (input_ids (fst b)) (pixel_values (fst b)) (tokenizer fw (snd b)) l,
      Backward l, OptimizerStep, SchedulerStep, ZeroGrad, AccumulateExit]"

text \<open>The calls made for one validation batch whose forward pass returned the loss \<open>l\<close>.\<close>

definition val_batch_events ::
  "('ids, 'px, 'lab) framework \<Rightarrow> ('ids, 'px) inputs \<times> json list \<Rightarrow> rat \<Rightarrow> ('ids, 'px, 'lab) event list" where
  "val_batch_events fw b l =
     [Tokenize (snd b),
      Forward (input_ids (fst b)) (pixel_values (fst b)) (tokenizer fw (snd b)) l]"

text \<open>
  What happened in one epoch: the batches each loader yielded, the loss of each batch,
  and the two averages that were printed.
\<close>

record ('ids, 'px) epoch_run =
  train_batches :: "(('ids, 'px) inputs \<times> json list) list"
  train_losses :: "rat list"
  val_batches :: "(('ids, 'px) inputs \<times> json list) list"
  val_losses :: "rat list"
  printed_train :: rat
  printed_val :: rat

text \<open>The directory of the checkpoint with number \<open>e\<close>, as line 168 builds it.\<close>

definition checkpoint_dir :: "nat \<Rightarrow> string" where
  "checkpoint_dir e = output_dir @ ''/epoch_'' @ str_nat e"

text \<open>
  The calls of one epoch with the record \<open>r\<close>: the training phase, the validation phase
  and the checkpoint, in this order. \<open>epoch\<close> counts from 0, the checkpoint is numbered
  \<open>epoch + 1\<close>.
\<close>

definition epoch_events ::
  "('ids, 'px, 'lab) framework \<Rightarrow> nat \<Rightarrow> ('ids, 'px) epoch_run \<Rightarrow> ('ids, 'px, 'lab) event list" where
  "epoch_events fw epoch r =
     [ModelTrain]
     @ concat (map2 (train_batch_events fw) (train_batches r) (train_losses r))
     @ [PrintTrainLoss (printed_train r), ModelEval, NoGradEnter]
     @ concat (map2 (val_batch_events fw) (val_batches r) (val_losses r))
     @ [PrintValLoss (printed_val r), NoGradExit,
        Makedirs (checkpoint_dir (epoch + 1)), SaveModel (checkpoint_dir (epoch + 1))]"

text \<open>
  The record \<open>r\<close> fits the loaders in the given epoch: the loaders yielded the batches of
  \<open>r\<close> and raised nothing, there is one loss per batch, and the printed averages are the
  sums of the losses divided by \<^verbatim>\<open>len\<close> of the loader. When the training loader yields
  no batch, line 143 prints the value an earlier epoch left in \<^verbatim>\<open>avg_train_loss\<close>, about
  which nothing is said here.
\<close>

definition epoch_ok ::
  "(('ids, 'px) inputs \<times> json list) loader \<Rightarrow> (('ids, 'px) inputs \<times> json list) loader
     \<Rightarrow> nat \<Rightarrow> ('ids, 'px) epoch_run \<Rightarrow> bool" where
  "epoch_ok trn vld epoch r =
     (loader_iter trn epoch = map Inr (train_batches r)
      \<and> length (train_losses r) = length (train_batches r)
      \<and> loader_iter vld epoch = map Inr (val_batches r)
      \<and> length (val_losses r) = length (val_batches r)
      \<and> 0 < loader_len vld
      \<and> printed_val r = sum_list (val_losses r) / of_nat (loader_len vld)
      \<and> (train_batches r \<noteq> [] \<longrightarrow>
           0 < loader_len trn
           \<and> printed_train r = sum_list (train_losses r) / of_nat (loader_len trn)))"

text \<open>The calls of lines 105 to 116, before the first epoch.\<close>

definition prologue :: "nat \<Rightarrow> nat \<Rightarrow> rat \<Rightarrow> ('ids, 'px, 'lab) event list" where
  "prologue epochs n lr = [CreateOptimizer lr, GetScheduler ''linear'' 12 (epochs * n), Prepare]"

text \<open>Reading decimal digits back, to tell the names of the checkpoints apart.\<close>

definition digit_val :: "char \<Rightarrow> nat" where
  "digit_val c = of_char c - 48"

definition nat_of_str :: "string \<Rightarrow> nat" where
  "nat_of_str s = foldl (\<lambda>a c. 10 * a + digit_val c) 0 s"


text \<open>
  Projections of a trace: the directories \<^verbatim>\<open>save_model\<close> wrote to, the directories
  \<^verbatim>\<open>os.makedirs\<close> was called on, the number of calls of \<^verbatim>\<open>lr_scheduler.step()\<close>, and the
  arguments of the calls of \<^verbatim>\<open>get_scheduler\<close>.
\<close>

definition saved_dirs :: "('ids, 'px, 'lab) event list \<Rightarrow> string list" where
  "saved_dirs t = concat (map (\<lambda>x. case x of SaveModel p \<Rightarrow> [p] | _ \<Rightarrow> []) t)"

definition made_dirs :: "('ids, 'px, 'lab) event list \<Rightarrow> string list" where
  "made_dirs t = concat (map (\<lambda>x. case x of Makedirs p \<Rightarrow> [p] | _ \<Rightarrow> []) t)"

definition scheduler_steps :: "('ids, 'px, 'lab) event list \<Rightarrow> nat" where
  "scheduler_steps t = length (filter (\<lambda>x. case x of SchedulerStep \<Rightarrow> True | _ \<Rightarrow> False) t)"

definition schedulers :: "('ids, 'px, 'lab) event list \<Rightarrow> (string \<times> nat \<times> nat) list" where
  "schedulers t = concat (map (\<lambda>x. case x of GetScheduler n w s \<Rightarrow> [(n, w, s)] | _ \<Rightarrow> []) t)"

section \<open>Clients of a dataset\<close>

text \<open>
  A client of a \<^verbatim>\<open>DetectionDataset\<close> (the \<^verbatim>\<open>DataLoader\<close>) only calls \<^verbatim>\<open>len\<close> and
  indexes it. A run, seen from the dataset, is a sequence of such calls; the images
  on disk may change between them, so each access carries its own \<^verbatim>\<open>Image.open\<close>.
\<close>

datatype 'img call = CallLen | CallGetitem "string \<Rightarrow> error + 'img" int

fun do_call :: "'img call \<Rightarrow> DetectionDataset ostate \<Rightarrow> DetectionDataset ostate" where
  "do_call CallLen st = snd (DetectionDataset_len st)"
| "do_call (CallGetitem image_open idx) st = snd (DetectionDataset_getitem image_open idx st)"

definition do_calls :: "'img call list \<Rightarrow> DetectionDataset ostate \<Rightarrow> DetectionDataset ostate" where
  "do_calls cs st = fold do_call cs st"

section \<open>Concrete inputs\<close>

text \<open>
  Small inputs on which the properties below are evaluated: a framework whose loss grows
  with the number of calls made, loaders of two batches, of no batch and of a batch
  followed by an exception, and an annotation file of two lines with one image present
  and one missing.
\<close>

definition demo_framework :: "(nat, nat, nat) framework" where
  "demo_framework = \<lparr>tokenizer = length, model_loss = (\<lambda>h ids px labels. of_nat (length h) / 4)\<rparr>"

definition demo_batch :: "(nat, nat) inputs \<times> json list" where
  "demo_batch = (\<lparr>input_ids = 1, pixel_values = 2\<rparr>, [JStr ''cat<loc_1>'', JStr ''dog<loc_2>''])"

definition demo_loader :: "((nat, nat) inputs \<times> json list) loader" where
  "demo_loader = \<lparr>loader_len = 2, loader_iter = (\<lambda>k. [Inr demo_batch, Inr demo_batch])\<rparr>"

definition demo_dataset :: "JSONLDataset ostate" where
  "demo_dataset =
     \<lparr>self = \<lparr>jsonl_file_path = ''./annotations/train.jsonl'', image_directory_path = ''./images'',
               entries = [JObj [(''image'', JStr ''a.jpg''), (''prefix'', JStr ''<OD>''),
                                (''suffix'', JStr ''cat<loc_1><loc_2><loc_3><loc_4>'')],
                          JObj [(''image'', JStr ''b.jpg''), (''prefix'', JStr ''<OD>''),
                                (''suffix'', JStr ''dog<loc_5><loc_6><loc_7><loc_8>'')]]\<rparr>,
      opened = []\<rparr>"

definition demo_line1 :: string where
  \<open>demo_line1 = ''{"image": "a.jpg", "prefix": "<OD>", "suffix": "cat<loc_1><loc_2><loc_3><loc_4>"}''\<close>

definition demo_line2 :: string where
  \<open>demo_line2 = ''{"image": "b.jpg", "prefix": "<OD>", "suffix": "dog<loc_5><loc_6><loc_7><loc_8>"}''\<close>

definition demo_bad_line :: string where
  \<open>demo_bad_line = ''{"image": "b.jpg", ''\<close>

definition demo_loads :: "string \<Rightarrow> json option" where
  "demo_loads l =
     (if l = demo_line1 then Some (entries (self demo_dataset) ! 0)
      else if l = demo_line2 then Some (entries (self demo_dataset) ! 1)
      else None)"

definition demo_files :: "string \<rightharpoonup> string list" where
  \<open>demo_files =
     [''./annotations/train.jsonl'' \<mapsto> [demo_line1, demo_line2],
      ''./annotations/test.jsonl'' \<mapsto> [demo_line1, demo_bad_line]]\<close>

definition demo_image_open :: "string \<Rightarrow> error + string" where
  "demo_image_open p =
     (if p = ''./images/a.jpg'' then Inr ''pixels of a.jpg'' else Inl (FileNotFoundError (errno2 p)))"

definition demo_processor :: "json list \<Rightarrow> string list \<Rightarrow> (nat, nat) inputs" where
  "demo_processor questions images = \<lparr>input_ids = length questions, pixel_values = length images\<rparr>"


definition failing_loader :: "((nat, nat) inputs \<times> json list) loader" where
  "failing_loader =
     \<lparr>loader_len = 2,
      loader_iter = (\<lambda>k. [Inr demo_batch,
                          Inl (FileNotFoundError ''Image file ./images/b.jpg not found.'')])\<rparr>"

definition demo_items :: "(json \<times> json \<times> string) list" where
  "demo_items =
     [(JStr ''<OD>'', JStr ''cat<loc_1><loc_2><loc_3><loc_4>'', ''pixels of a.jpg''),
      (JStr ''<OD>'', JStr ''dog<loc_5><loc_6><loc_7><loc_8>'', ''pixels of b.jpg'')]"

definition demo_state :: "(nat, nat, nat) tstate" where
  "demo_state = \<lparr>trace = [], train_loss = 0, val_loss = 0, avg_train_loss = None\<rparr>"

definition demo_files_ok :: "string \<rightharpoonup> string list" where
  "demo_files_ok =
     [''./annotations/train.jsonl'' \<mapsto> [demo_line1, demo_line2],
      ''./annotations/test.jsonl'' \<mapsto> [demo_line1]]"

definition demo_DataLoader ::
  "DetectionDataset \<Rightarrow> nat \<Rightarrow> bool \<Rightarrow> ((nat, nat) inputs \<times> json list) loader" where
  "demo_DataLoader ds batch_size shuffle = (if shuffle then failing_loader else demo_loader)"

definition demo_files_bad :: "string \<rightharpoonup> string list" where
  "demo_files_bad = [''./annotations/train.jsonl'' \<mapsto> [demo_bad_line]]"

section \<open>Lemmas\<close>

subsection \<open>Loading and indexing\<close>

lemma load_loop_ok:
  "\<forall>l\<in>set ls. loads l \<noteq> None \<Longrightarrow> load_loop loads acc ls = Inr (acc @ map (the \<circ> loads) ls)"
  by (induction ls arbitrary: acc) auto

lemma load_loop_bad:
  "\<exists>l\<in>set ls. loads l = None \<Longrightarrow> load_loop loads acc ls = Inl JSONDecodeError"
  by (induction ls arbitrary: acc) (auto split: option.splits)

lemma getitem_self: "self (snd (JSONLDataset_getitem io idx st)) = self st"
  by (auto simp: JSONLDataset_getitem_def Let_def split: sum.splits json.splits error.splits)

lemma dgetitem_self: "self (snd (DetectionDataset_getitem io idx st)) = self st"
  using getitem_self[of io idx "inner st"]
  by (auto simp: DetectionDataset_getitem_def inner_def outer_def split: sum.splits prod.splits)

subsection \<open>What a loop that returns has done\<close>

text \<open>
  A loop of \<^verbatim>\<open>train_model\<close> that returns has met no exception of the loader, and has
  appended to the trace the calls of each batch in order, with some loss for each.
\<close>

lemma train_batch_Inr:
  assumes "train_batch fw n st b = Inr st'"
  shows "0 < n \<and> (\<exists>l. trace st' = trace st @ train_batch_events fw b l
            \<and> train_loss st' = train_loss st + l
            \<and> avg_train_loss st' = Some (train_loss st' / of_nat n)
            \<and> val_loss st' = val_loss st)"
  using assms
  by (cases b) (auto simp: train_batch_def train_batch_events_def Let_def split: if_splits)

lemma train_loop_Inr:
  "train_loop fw n st bs = Inr st' \<Longrightarrow>
   \<exists>tbs tls. bs = map Inr tbs \<and> length tls = length tbs
     \<and> trace st' = trace st @ concat (map2 (train_batch_events fw) tbs tls)
     \<and> train_loss st' = train_loss st + sum_list tls
     \<and> val_loss st' = val_loss st
     \<and> (tbs = [] \<longrightarrow> avg_train_loss st' = avg_train_loss st)
     \<and> (tbs \<noteq> [] \<longrightarrow> 0 < n \<and> avg_train_loss st' = Some (train_loss st' / of_nat n))"
proof (induction fw n st bs rule: train_loop.induct)
  case (1 fw n st)
  then show ?case by simp
next
  case (2 fw n st e bs)
  then show ?case by simp
next
  case (3 fw n st b bs)
  from "3.prems" obtain st1 where b: "train_batch fw n st b = Inr st1"
    and r: "train_loop fw n st1 bs = Inr st'"
    by (auto split: sum.splits)
  from train_batch_Inr[OF b] obtain l where n: "0 < n"
    and t1: "trace st1 = trace st @ train_batch_events fw b l"
    and l1: "train_loss st1 = train_loss st + l"
    and a1: "avg_train_loss st1 = Some (train_loss st1 / of_nat n)"
    and v1: "val_loss st1 = val_loss st"
    by blast
  from "3.IH"[OF b r] obtain tbs tls where bs: "bs = map Inr tbs" and len: "length tls = length tbs"
    and t2: "trace st' = trace st1 @ concat (map2 (train_batch_events fw) tbs tls)"
    and l2: "train_loss st' = train_loss st1 + sum_list tls"
    and v2: "val_loss st' = val_loss st1"
    and a2: "tbs = [] \<longrightarrow> avg_train_loss st' = avg_train_loss st1"
    and a3: "tbs \<noteq> [] \<longrightarrow> 0 < n \<and> avg_train_loss st' = Some (train_loss st' / of_nat n)"
    by blast
  have "Inr b # bs = map Inr (b # tbs)" using bs by simp
  moreover have "length (l # tls) = length (b # tbs)" using len by simp
  moreover have "trace st' = trace st @ concat (map2 (train_batch_events fw) (b # tbs) (l # tls))"
    using t1 t2 by simp
  moreover have "train_loss st' = train_loss st + sum_list (l # tls)"
    using l1 l2 by simp
  moreover have "val_loss st' = val_loss st" using v1 v2 by simp
  moreover have "0 < n \<and> avg_train_loss st' = Some (train_loss st' / of_nat n)"
  proof (cases "tbs = []")
    case True
    then show ?thesis using a2 a1 n l2 len by simp
  next
    case False
    then show ?thesis using a3 by simp
  qed
  ultimately show ?case
    by (intro exI[of _ "b # tbs"] exI[of _ "l # tls"]) simp
qed

lemma val_batch_eq:
  "\<exists>l. trace (val_batch fw st b) = trace st @ val_batch_events fw b l
      \<and> val_loss (val_batch fw st b) = val_loss st + l
      \<and> train_loss (val_batch fw st b) = train_loss st
      \<and> avg_train_loss (val_batch fw st b) = avg_train_loss st"
  by (cases b) (simp add: val_batch_def val_batch_events_def Let_def)

lemma val_loop_Inr:
  "val_loop fw st bs = Inr st' \<Longrightarrow>
   \<exists>vbs vls. bs = map Inr vbs \<and> length vls = length vbs
     \<and> trace st' = trace st @ concat (map2 (val_batch_events fw) vbs vls)
     \<and> val_loss st' = val_loss st + sum_list vls
     \<and> train_loss st' = train_loss st
     \<and> avg_train_loss st' = avg_train_loss st"
proof (induction fw st bs rule: val_loop.induct)
  case (1 fw st)
  then show ?case by simp
next
  case (2 fw st e bs)
  then show ?case by simp
next
  case (3 fw st b bs)
  let ?s = "val_batch fw st b"
  from "3.prems" have r: "val_loop fw ?s bs = Inr st'" by simp
  from val_batch_eq[of fw st b] obtain l where
    t1: "trace ?s = trace st @ val_batch_events fw b l"
    and v1: "val_loss ?s = val_loss st + l"
    and l1: "train_loss ?s = train_loss st"
    and a1: "avg_train_loss ?s = avg_train_loss st"
    by blast
  from "3.IH"[OF r] obtain vbs vls where bs: "bs = map Inr vbs" and len: "length vls = length vbs"
    and t2: "trace st' = trace ?s @ concat (map2 (val_batch_events fw) vbs vls)"
    and v2: "val_loss st' = val_loss ?s + sum_list vls"
    and l2: "train_loss st' = train_loss ?s"
    and a2: "avg_train_loss st' = avg_train_loss ?s"
    by blast
  have "Inr b # bs = map Inr (b # vbs)" using bs by simp
  moreover have "length (l # vls) = length (b # vbs)" using len by simp
  moreover have "trace st' = trace st @ concat (map2 (val_batch_events fw) (b # vbs) (l # vls))"
    using t1 t2 by simp
  moreover have "val_loss st' = val_loss st + sum_list (l # vls)" using v1 v2 by simp
  moreover have "train_loss st' = train_loss st" using l1 l2 by simp
  moreover have "avg_train_loss st' = avg_train_loss st" using a1 a2 by simp
  ultimately show ?case
    by (intro exI[of _ "b # vbs"] exI[of _ "l # vls"]) simp
qed

lemma run_epoch_Inr:
  assumes "run_epoch fw trn vld st epoch = Inr st'"
  shows "\<exists>r. epoch_ok trn vld epoch r \<and> trace st' = trace st @ epoch_events fw epoch r
           \<and> avg_train_loss st' = Some (printed_train r)
           \<and> (train_batches r = [] \<longrightarrow> avg_train_loss st = Some (printed_train r))"
proof -
  let ?st1 = "st\<lparr>trace := trace st @ [ModelTrain], train_loss := 0\<rparr>"
  from assms obtain st2 where t: "train_loop fw (loader_len trn) ?st1 (loader_iter trn epoch) = Inr st2"
    by (auto simp: run_epoch_def Let_def split: sum.splits)
  from assms t obtain avg where avg: "avg_train_loss st2 = Some avg"
    by (auto simp: run_epoch_def Let_def split: option.splits)
  let ?st3 = "st2\<lparr>trace := trace st2 @ [PrintTrainLoss avg, ModelEval, NoGradEnter], val_loss := 0\<rparr>"
  from assms t avg obtain st4 where v: "val_loop fw ?st3 (loader_iter vld epoch) = Inr st4"
    by (auto simp: run_epoch_def Let_def split: sum.splits)
  from assms t avg v have nv: "0 < loader_len vld"
    and st': "st' = st4\<lparr>trace := trace st4 @
                [PrintValLoss (val_loss st4 / of_nat (loader_len vld)), NoGradExit,
                 Makedirs (checkpoint_dir (epoch + 1)), SaveModel (checkpoint_dir (epoch + 1))]\<rparr>"
    by (auto simp: run_epoch_def Let_def checkpoint_dir_def split: if_splits)
  from train_loop_Inr[OF t] obtain tbs tls where
    tb: "loader_iter trn epoch = map Inr tbs" and tlen: "length tls = length tbs"
    and tt: "trace st2 = trace ?st1 @ concat (map2 (train_batch_events fw) tbs tls)"
    and tloss: "train_loss st2 = train_loss ?st1 + sum_list tls"
    and ta0: "tbs = [] \<longrightarrow> avg_train_loss st2 = avg_train_loss ?st1"
    and ta1: "tbs \<noteq> [] \<longrightarrow> 0 < loader_len trn
                \<and> avg_train_loss st2 = Some (train_loss st2 / of_nat (loader_len trn))"
    by blast
  from val_loop_Inr[OF v] obtain vbs vls where
    vb: "loader_iter vld epoch = map Inr vbs" and vlen: "length vls = length vbs"
    and vt: "trace st4 = trace ?st3 @ concat (map2 (val_batch_events fw) vbs vls)"
    and vloss: "val_loss st4 = val_loss ?st3 + sum_list vls"
    and va: "avg_train_loss st4 = avg_train_loss ?st3"
    by blast
  let ?r = "\<lparr>train_batches = tbs, train_losses = tls, val_batches = vbs, val_losses = vls,
             printed_train = avg, printed_val = val_loss st4 / of_nat (loader_len vld)\<rparr>"
  have "epoch_ok trn vld epoch ?r"
    using tb tlen vb vlen nv vloss ta1 tloss avg by (auto simp: epoch_ok_def)
  moreover have "trace st' = trace st @ epoch_events fw epoch ?r"
    using st' vt tt by (simp add: epoch_events_def)
  moreover have "avg_train_loss st' = Some (printed_train ?r)"
    using st' va avg by simp
  moreover have "train_batches ?r = [] \<longrightarrow> avg_train_loss st = Some (printed_train ?r)"
    using ta0 avg by simp
  ultimately show ?thesis by blast
qed

lemma epoch_loop_Inr:
  "epoch_loop fw trn vld st es = Inr st' \<Longrightarrow>
   \<exists>rs. list_all2 (epoch_ok trn vld) es rs
        \<and> trace st' = trace st @ concat (map2 (epoch_events fw) es rs)
        \<and> (avg_train_loss st = None \<longrightarrow> list_all (\<lambda>r. train_batches r \<noteq> []) (take 1 rs))"
proof (induction es arbitrary: st)
  case Nil
  then show ?case by simp
next
  case (Cons e es)
  from Cons.prems obtain st1 where e: "run_epoch fw trn vld st e = Inr st1"
    and r: "epoch_loop fw trn vld st1 es = Inr st'"
    by (auto split: sum.splits)
  from run_epoch_Inr[OF e] obtain r1 where ok1: "epoch_ok trn vld e r1"
    and t1: "trace st1 = trace st @ epoch_events fw e r1"
    and a1: "train_batches r1 = [] \<longrightarrow> avg_train_loss st = Some (printed_train r1)"
    by blast
  from Cons.IH[OF r] obtain rs where oks: "list_all2 (epoch_ok trn vld) es rs"
    and t2: "trace st' = trace st1 @ concat (map2 (epoch_events fw) es rs)"
    by blast
  have "list_all2 (epoch_ok trn vld) (e # es) (r1 # rs)" using ok1 oks by simp
  moreover have "trace st' = trace st @ concat (map2 (epoch_events fw) (e # es) (r1 # rs))"
    using t1 t2 by simp
  moreover have "avg_train_loss st = None \<longrightarrow> list_all (\<lambda>r. train_batches r \<noteq> []) (take 1 (r1 # rs))"
    using a1 by auto
  ultimately show ?case by (intro exI[of _ "r1 # rs"]) simp
qed

lemma train_model_Inr:
  assumes "train_model fw trn vld epochs lr = Inr st"
  shows "\<exists>rs. list_all2 (epoch_ok trn vld) [0..<epochs] rs
        \<and> trace st = prologue epochs (loader_len trn) lr @ concat (map2 (epoch_events fw) [0..<epochs] rs)
        \<and> list_all (\<lambda>r. train_batches r \<noteq> []) (take 1 rs)"
  using epoch_loop_Inr[of fw trn vld _ "[0..<epochs]" st] assms
  by (fastforce simp: train_model_def Let_def prologue_def)

subsection \<open>Checkpoint names are pairwise different\<close>

lemma digit_val_digit: "d < 10 \<Longrightarrow> digit_val (digit d) = d"
  by (simp add: digit_val_def digit_def)

lemma nat_of_str_snoc: "nat_of_str (s @ [c]) = 10 * nat_of_str s + digit_val c"
  by (simp add: nat_of_str_def)

lemma nat_of_str_str_nat: "nat_of_str (str_nat n) = n"
proof (induction n rule: str_nat.induct)
  case (1 n)
  show ?case
  proof (cases "n < 10")
    case True
    then show ?thesis
      by (simp add: str_nat.simps[of n] nat_of_str_def digit_val_digit)
  next
    case False
    then have "nat_of_str (str_nat (n div 10)) = n div 10" using 1 by simp
    with False show ?thesis
      by (simp add: str_nat.simps[of n] nat_of_str_snoc digit_val_digit)
  qed
qed

lemma str_nat_inj: "str_nat a = str_nat b \<Longrightarrow> a = b"
  by (metis nat_of_str_str_nat)

lemma checkpoint_dir_inj: "checkpoint_dir a = checkpoint_dir b \<Longrightarrow> a = b"
  by (simp add: checkpoint_dir_def str_nat_inj)

lemma distinct_checkpoint_dirs: "distinct (map checkpoint_dir [1..<Suc n])"
  by (simp add: distinct_map inj_on_def checkpoint_dir_inj)

subsection \<open>Runs that complete and runs that fail\<close>


lemma train_loop_complete:
  "0 < n \<Longrightarrow> \<exists>st'. train_loop fw n st (map Inr bs) = Inr st'
      \<and> (bs \<noteq> [] \<longrightarrow> avg_train_loss st' \<noteq> None)
      \<and> (bs = [] \<longrightarrow> avg_train_loss st' = avg_train_loss st)"
proof (induction bs arbitrary: st)
  case Nil
  then show ?case by simp
next
  case (Cons b bs)
  obtain st1 where b: "train_batch fw n st b = Inr st1" and a: "avg_train_loss st1 \<noteq> None"
    using Cons.prems by (cases b) (auto simp: train_batch_def Let_def)
  from Cons.IH[OF Cons.prems, of st1] obtain st' where
    r: "train_loop fw n st1 (map Inr bs) = Inr st'"
    and a1: "bs \<noteq> [] \<longrightarrow> avg_train_loss st' \<noteq> None"
    and a2: "bs = [] \<longrightarrow> avg_train_loss st' = avg_train_loss st1"
    by blast
  have "train_loop fw n st (map Inr (b # bs)) = Inr st'" using b r by simp
  moreover have "avg_train_loss st' \<noteq> None"
  proof (cases "bs = []")
    case True
    then show ?thesis using a a2 by simp
  next
    case False
    then show ?thesis using a1 by simp
  qed
  ultimately show ?case by simp
qed







subsection \<open>Projections of the trace\<close>

lemma saved_dirs_append: "saved_dirs (a @ b) = saved_dirs a @ saved_dirs b"
  by (simp add: saved_dirs_def)

lemma made_dirs_append: "made_dirs (a @ b) = made_dirs a @ made_dirs b"
  by (simp add: made_dirs_def)

lemma scheduler_steps_append: "scheduler_steps (a @ b) = scheduler_steps a + scheduler_steps b"
  by (simp add: scheduler_steps_def)

lemma schedulers_append: "schedulers (a @ b) = schedulers a @ schedulers b"
  by (simp add: schedulers_def)

lemma train_events_proj:
  "length ls = length bs \<Longrightarrow>
   saved_dirs (concat (map2 (train_batch_events fw) bs ls)) = []
   \<and> made_dirs (concat (map2 (train_batch_events fw) bs ls)) = []
   \<and> schedulers (concat (map2 (train_batch_events fw) bs ls)) = []
   \<and> scheduler_steps (concat (map2 (train_batch_events fw) bs ls)) = length bs"
  by (induction bs ls rule: list_induct2')
     (simp_all add: saved_dirs_def made_dirs_def schedulers_def scheduler_steps_def train_batch_events_def)

lemma val_events_proj:
  "saved_dirs (concat (map2 (val_batch_events fw) bs ls)) = []
   \<and> made_dirs (concat (map2 (val_batch_events fw) bs ls)) = []
   \<and> schedulers (concat (map2 (val_batch_events fw) bs ls)) = []
   \<and> scheduler_steps (concat (map2 (val_batch_events fw) bs ls)) = 0"
  by (induction bs ls rule: list_induct2')
     (simp_all add: saved_dirs_def made_dirs_def schedulers_def scheduler_steps_def val_batch_events_def)

lemma epoch_events_proj:
  assumes "length (train_losses r) = length (train_batches r)"
  shows "saved_dirs (epoch_events fw e r) = [checkpoint_dir (e + 1)]"
    and "made_dirs (epoch_events fw e r) = [checkpoint_dir (e + 1)]"
    and "schedulers (epoch_events fw e r) = []"
    and "scheduler_steps (epoch_events fw e r) = length (train_batches r)"
  using train_events_proj[OF assms, of fw] val_events_proj[of fw "val_batches r" "val_losses r"]
  by (simp_all add: epoch_events_def saved_dirs_append made_dirs_append schedulers_append
        scheduler_steps_append)
     (simp_all add: saved_dirs_def made_dirs_def schedulers_def scheduler_steps_def)

lemma epochs_proj:
  "list_all2 (epoch_ok trn vld) es rs \<Longrightarrow>
   saved_dirs (concat (map2 (epoch_events fw) es rs)) = map (\<lambda>e. checkpoint_dir (e + 1)) es
   \<and> made_dirs (concat (map2 (epoch_events fw) es rs)) = map (\<lambda>e. checkpoint_dir (e + 1)) es
   \<and> schedulers (concat (map2 (epoch_events fw) es rs)) = []
   \<and> scheduler_steps (concat (map2 (epoch_events fw) es rs))
       = (\<Sum>e\<leftarrow>es. length (loader_iter trn e))"
proof (induction es rs rule: list_all2_induct)
  case Nil
  then show ?case by (simp add: saved_dirs_def made_dirs_def schedulers_def scheduler_steps_def)
next
  case (Cons e es r rs)
  then have len: "length (train_losses r) = length (train_batches r)"
    and it: "length (loader_iter trn e) = length (train_batches r)"
    by (simp_all add: epoch_ok_def)
  show ?case
    using Cons.IH epoch_events_proj[OF len, of fw e] it
    by (simp add: saved_dirs_append made_dirs_append schedulers_append scheduler_steps_append)
qed

lemma prologue_proj:
  "saved_dirs (prologue n k lr) = []" "made_dirs (prologue n k lr) = []"
  "schedulers (prologue n k lr) = [(''linear'', 12, n * k)]"
  "scheduler_steps (prologue n k lr) = 0"
  by (simp_all add: prologue_def saved_dirs_def made_dirs_def schedulers_def scheduler_steps_def)


subsection \<open>The methods of the datasets only read\<close>

lemma len_self: "self (snd (JSONLDataset_len st)) = self st"
  by (simp add: JSONLDataset_len_def)

lemma dlen_self: "self (snd (DetectionDataset_len st)) = self st"
  by (simp add: DetectionDataset_len_def JSONLDataset_len_def inner_def outer_def)

lemma do_call_self: "self (do_call c st) = self st"
  by (cases c) (simp_all add: dlen_self dgetitem_self)

lemma do_calls_self: "self (do_calls cs st) = self st"
  unfolding do_calls_def by (induction cs arbitrary: st) (simp_all add: do_call_self)

lemma getitem_result_self:
  "self st = self st' \<Longrightarrow>
   fst (JSONLDataset_getitem io idx st) = fst (JSONLDataset_getitem io idx st')"
  by (auto simp: JSONLDataset_getitem_def Let_def split: sum.splits json.splits error.splits)

lemma dgetitem_result_self:
  assumes "self st = self st'"
  shows "fst (DetectionDataset_getitem io idx st) = fst (DetectionDataset_getitem io idx st')"
proof -
  have "fst (JSONLDataset_getitem io idx (inner st)) = fst (JSONLDataset_getitem io idx (inner st'))"
    using assms by (intro getitem_result_self) (simp add: inner_def)
  then show ?thesis
    by (auto simp: DetectionDataset_getitem_def split: prod.splits sum.splits)
qed

lemma dlen_result_self:
  "self st = self st' \<Longrightarrow> fst (DetectionDataset_len st) = fst (DetectionDataset_len st')"
  by (simp add: DetectionDataset_len_def JSONLDataset_len_def inner_def)

lemma getitem_fields:
  assumes "fst (JSONLDataset_getitem io idx st) = Inr (img, data)"
  shows "0 \<le> idx \<and> idx < int (length (entries (self st))) \<and> data = entries (self st) ! nat idx"
  using assms
  by (auto simp: JSONLDataset_getitem_def Let_def split: if_splits sum.splits json.splits error.splits)

lemma dgetitem_fields:
  assumes "fst (DetectionDataset_getitem io idx st) = Inr (p, s, img)"
  shows "0 \<le> idx \<and> idx < int (length (entries (dataset (self st))))
       \<and> subscript (entries (dataset (self st)) ! nat idx) ''prefix'' = Inr p
       \<and> subscript (entries (dataset (self st)) ! nat idx) ''suffix'' = Inr s"
proof -
  from assms obtain data ist where
    g: "JSONLDataset_getitem io idx (inner st) = (Inr (img, data), ist)"
    and p: "subscript data ''prefix'' = Inr p" and s: "subscript data ''suffix'' = Inr s"
    by (auto simp: DetectionDataset_getitem_def split: prod.splits sum.splits)
  from g have "fst (JSONLDataset_getitem io idx (inner st)) = Inr (img, data)" by simp
  from getitem_fields[OF this] p s show ?thesis by (simp add: inner_def)
qed

subsection \<open>Entries and images\<close>

lemma load_entries_ok:
  assumes "files path = Some lines" and "\<forall>l\<in>set lines. loads l \<noteq> None"
  shows "\<exists>es. load_entries files loads path = Inr es \<and> map Some es = map loads lines"
proof -
  have "load_entries files loads path = Inr (map (the \<circ> loads) lines)"
    using assms load_loop_ok[of lines loads "[]"] by (simp add: load_entries_def)
  moreover have "map Some (map (the \<circ> loads) lines) = map loads lines"
    using assms(2) by (induction lines) auto
  ultimately show ?thesis by blast
qed

lemma getitem_ok:
  assumes "0 \<le> idx" "idx < int (length (entries (self st)))"
    and "subscript (entries (self st) ! nat idx) ''image'' = Inr (JStr name)"
    and "image_open (os_path_join (image_directory_path (self st)) name) = Inr img"
  shows "JSONLDataset_getitem image_open idx st
         = (Inr (img, entries (self st) ! nat idx),
            st\<lparr>opened := opened st @ [os_path_join (image_directory_path (self st)) name]\<rparr>)"
  using assms by (simp add: JSONLDataset_getitem_def Let_def)

subsection \<open>Exceptions of a loader\<close>

lemma train_loop_error:
  "0 < n \<Longrightarrow> train_loop fw n st (map Inr bs @ Inl e # rest) = Inl e"
proof (induction bs arbitrary: st)
  case Nil
  then show ?case by simp
next
  case (Cons b bs)
  obtain st1 where "train_batch fw n st b = Inr st1"
    using Cons.prems by (cases b) (auto simp: train_batch_def Let_def)
  then show ?case using Cons by simp
qed

lemma val_loop_error: "val_loop fw st (map Inr bs @ Inl e # rest) = Inl e"
  by (induction bs arbitrary: st) simp_all

lemma train_model_train_error:
  assumes "0 < epochs" "0 < loader_len trn" "loader_iter trn 0 = map Inr bs @ Inl e # rest"
  shows "train_model fw trn vld epochs lr = Inl e"
  using assms train_loop_error[OF assms(2), of fw _ bs e rest]
  by (simp add: train_model_def Let_def upt_conv_Cons run_epoch_def)

lemma train_model_val_error:
  assumes "0 < epochs" "0 < loader_len trn" "loader_iter trn 0 = map Inr tbs" "tbs \<noteq> []"
    and "loader_iter vld 0 = map Inr bs @ Inl e # rest"
  shows "train_model fw trn vld epochs lr = Inl e"
proof -
  let ?st0 = "\<lparr>trace = [CreateOptimizer lr, GetScheduler ''linear'' 12 (epochs * loader_len trn), Prepare],
              train_loss = 0, val_loss = 0, avg_train_loss = None\<rparr> :: ('a, 'b, 'c) tstate"
  let ?st1 = "?st0\<lparr>trace := trace ?st0 @ [ModelTrain], train_loss := 0\<rparr>"
  from train_loop_complete[OF assms(2), of fw ?st1 tbs] assms(4) obtain st2 avg where
    "train_loop fw (loader_len trn) ?st1 (map Inr tbs) = Inr st2" "avg_train_loss st2 = Some avg"
    by blast
  then have "run_epoch fw trn vld ?st0 0 = Inl e"
    using assms(3,5) by (simp add: run_epoch_def Let_def val_loop_error)
  then show ?thesis using assms(1) by (simp add: train_model_def Let_def upt_conv_Cons)
qed


section \<open>The properties of the specification\<close>



text \<open>
  C2. A line that \<^verbatim>\<open>json.loads\<close> rejects makes the construction of the dataset raise,
  and no object is returned. A missing image makes \<^verbatim>\<open>JSONLDataset.__getitem__\<close> raise
  \<^verbatim>\<open>FileNotFoundError\<close> (the handler of the \<^verbatim>\<open>try\<close> raises it anew, with the script's
  message). Nothing above catches an exception: the wrapper's \<^verbatim>\<open>__getitem__\<close> and
  constructor pass it on, an exception that reaches \<^verbatim>\<open>train_model\<close> while a batch
  of the training or of the validation loader is fetched ends \<^verbatim>\<open>train_model\<close> with
  that exception, and an exception of a constructor or of \<^verbatim>\<open>train_model\<close> ends the
  script with that exception.
\<close>

theorem errors_propagate:
  "(files path = Some lines \<and> (\<exists>l\<in>set lines. loads l = None)
      \<longrightarrow> JSONLDataset_init files loads path dir = Inl JSONDecodeError
          \<and> DetectionDataset_init files loads path dir = Inl JSONDecodeError)
   \<and> (0 \<le> idx \<and> idx < int (length (entries (self jst)))
       \<and> subscript (entries (self jst) ! nat idx) ''image'' = Inr (JStr name)
       \<and> image_open (os_path_join (image_directory_path (self jst)) name) = Inl (FileNotFoundError m)
      \<longrightarrow> fst (JSONLDataset_getitem image_open idx jst)
          = Inl (FileNotFoundError (''Image file ''
                  @ os_path_join (image_directory_path (self jst)) name @ '' not found.'')))
   \<and> (fst (JSONLDataset_getitem image_open idx (inner st)) = Inl e
      \<longrightarrow> fst (DetectionDataset_getitem image_open idx st) = Inl e)
   \<and> (0 < epochs \<and> 0 < loader_len trn \<and> loader_iter trn 0 = map Inr bs @ Inl e # rest
      \<longrightarrow> train_model fw trn vld epochs lr = Inl e)
   \<and> (0 < epochs \<and> 0 < loader_len trn \<and> loader_iter trn 0 = map Inr tbs \<and> tbs \<noteq> []
       \<and> loader_iter vld 0 = map Inr bs @ Inl e # rest
      \<longrightarrow> train_model fw trn vld epochs lr = Inl e)
   \<and> (DetectionDataset_init files loads train_labels img_dir = Inl e
      \<longrightarrow> script files loads DataLoader fw = Inl e)
   \<and> (DetectionDataset_init files loads train_labels img_dir = Inr d1
       \<and> DetectionDataset_init files loads test_labels img_dir = Inl e
      \<longrightarrow> script files loads DataLoader fw = Inl e)
   \<and> (DetectionDataset_init files loads train_labels img_dir = Inr d1
       \<and> DetectionDataset_init files loads test_labels img_dir = Inr d2
       \<and> train_model fw (DataLoader d1 BATCH_SIZE True) (DataLoader d2 BATCH_SIZE False)
             global_epochs global_learning_rate = Inl e
      \<longrightarrow> script files loads DataLoader fw = Inl e)"
proof -
  have a: "JSONLDataset_init files loads path dir = Inl JSONDecodeError
          \<and> DetectionDataset_init files loads path dir = Inl JSONDecodeError"
    if "files path = Some lines" "\<exists>l\<in>set lines. loads l = None"
    using that load_loop_bad[of lines loads "[]"]
    by (simp add: DetectionDataset_init_def JSONLDataset_init_def load_entries_def)
  have b: "fst (JSONLDataset_getitem image_open idx jst)
          = Inl (FileNotFoundError (''Image file ''
                  @ os_path_join (image_directory_path (self jst)) name @ '' not found.''))"
    if "0 \<le> idx" "idx < int (length (entries (self jst)))"
      "subscript (entries (self jst) ! nat idx) ''image'' = Inr (JStr name)"
      "image_open (os_path_join (image_directory_path (self jst)) name) = Inl (FileNotFoundError m)"
    using that by (simp add: JSONLDataset_getitem_def Let_def)
  have c: "fst (DetectionDataset_getitem image_open idx st) = Inl e"
    if "fst (JSONLDataset_getitem image_open idx (inner st)) = Inl e"
    using that by (auto simp: DetectionDataset_getitem_def split: prod.splits sum.splits)
  have d: "script files loads DataLoader fw = Inl e"
    if "DetectionDataset_init files loads train_labels img_dir = Inl e"
    using that by (simp add: script_def)
  have f: "script files loads DataLoader fw = Inl e"
    if "DetectionDataset_init files loads train_labels img_dir = Inr d1"
      "DetectionDataset_init files loads test_labels img_dir = Inl e"
    using that by (simp add: script_def)
  have g: "script files loads DataLoader fw = Inl e"
    if "DetectionDataset_init files loads train_labels img_dir = Inr d1"
      "DetectionDataset_init files loads test_labels img_dir = Inr d2"
      "train_model fw (DataLoader d1 BATCH_SIZE True) (DataLoader d2 BATCH_SIZE False)
             global_epochs global_learning_rate = Inl e"
    using that by (simp add: script_def Let_def)
  show ?thesis
    using a b c d f g train_model_train_error[of epochs trn bs e rest fw vld lr]
      train_model_val_error[of epochs trn tbs vld bs e rest fw lr]
    by blast
qed

theorem errors_propagate_witness:
  "JSONLDataset_init demo_files demo_loads ''./annotations/test.jsonl'' ''./images'' = Inl JSONDecodeError
   \<and> DetectionDataset_init demo_files demo_loads ''./annotations/test.jsonl'' ''./images'' = Inl JSONDecodeError
   \<and> fst (JSONLDataset_getitem demo_image_open 1 demo_dataset)
       = Inl (FileNotFoundError ''Image file ./images/b.jpg not found.'')
   \<and> fst (DetectionDataset_getitem demo_image_open 1 \<lparr>self = \<lparr>dataset = self demo_dataset\<rparr>, opened = []\<rparr>)
       = Inl (FileNotFoundError ''Image file ./images/b.jpg not found.'')
   \<and> train_model demo_framework failing_loader demo_loader 2 (1 / 200000)
       = Inl (FileNotFoundError ''Image file ./images/b.jpg not found.'')
   \<and> train_model demo_framework demo_loader failing_loader 2 (1 / 200000)
       = Inl (FileNotFoundError ''Image file ./images/b.jpg not found.'')
   \<and> script demo_files_bad demo_loads demo_DataLoader demo_framework = Inl JSONDecodeError
   \<and> script demo_files demo_loads demo_DataLoader demo_framework = Inl JSONDecodeError
   \<and> script demo_files_ok demo_loads demo_DataLoader demo_framework
       = Inl (FileNotFoundError ''Image file ./images/b.jpg not found.'')"
proof -
  let ?e = "FileNotFoundError ''Image file ./images/b.jpg not found.''"
  let ?dst = "\<lparr>self = \<lparr>dataset = self demo_dataset\<rparr>, opened = []\<rparr>"
  note t = errors_propagate[where path = "''./annotations/test.jsonl''"
      and lines = "[demo_line1, demo_bad_line]" and loads = demo_loads
      and dir = "''./images''" and idx = 1 and jst = demo_dataset and name = "''b.jpg''"
      and image_open = demo_image_open and m = "errno2 ''./images/b.jpg''"
      and st = ?dst and bs = "[demo_batch]" and rest = "[]" and tbs = "[demo_batch, demo_batch]"
      and fw = demo_framework and DataLoader = demo_DataLoader]
  note t1 = t[where files = demo_files and trn = failing_loader and vld = demo_loader and e = ?e
      and epochs = 2 and lr = "1 / 200000"]
  note t2 = t[where files = demo_files and trn = demo_loader and vld = failing_loader and e = ?e
      and epochs = 2 and lr = "1 / 200000"]
  have f: "demo_files ''./annotations/test.jsonl'' = Some [demo_line1, demo_bad_line]"
    by (simp add: demo_files_def)
  have p: "\<exists>l\<in>set [demo_line1, demo_bad_line]. demo_loads l = None"
    by code_simp
  have a: "JSONLDataset_init demo_files demo_loads ''./annotations/test.jsonl'' ''./images'' = Inl JSONDecodeError
     \<and> DetectionDataset_init demo_files demo_loads ''./annotations/test.jsonl'' ''./images'' = Inl JSONDecodeError"
    using t1 f p by blast
  have r: "0 \<le> (1::int)" "(1::int) < int (length (entries (self demo_dataset)))"
    "subscript (entries (self demo_dataset) ! nat 1) ''image'' = Inr (JStr ''b.jpg'')"
    by (simp_all add: demo_dataset_def)
  have o: "demo_image_open (os_path_join (image_directory_path (self demo_dataset)) ''b.jpg'')
           = Inl (FileNotFoundError (errno2 ''./images/b.jpg''))"
    by code_simp
  have j: "''Image file '' @ os_path_join (image_directory_path (self demo_dataset)) ''b.jpg''
             @ '' not found.'' = ''Image file ./images/b.jpg not found.''"
    by code_simp
  have "fst (JSONLDataset_getitem demo_image_open 1 demo_dataset)
          = Inl (FileNotFoundError (''Image file ''
              @ os_path_join (image_directory_path (self demo_dataset)) ''b.jpg'' @ '' not found.''))"
    using t1 r o by blast
  then have g: "fst (JSONLDataset_getitem demo_image_open 1 demo_dataset) = Inl ?e"
    using j by simp
  have i: "inner ?dst = demo_dataset" by (simp add: inner_def demo_dataset_def)
  have d: "fst (DetectionDataset_getitem demo_image_open 1 ?dst) = Inl ?e"
    using t1 g i by simp
  have l1: "0 < (2::nat)" "0 < loader_len failing_loader"
    "loader_iter failing_loader 0 = map Inr [demo_batch] @ Inl ?e # []"
    by (simp_all add: failing_loader_def)
  have l2: "0 < loader_len demo_loader" "loader_iter demo_loader 0 = map Inr [demo_batch, demo_batch]"
    "[demo_batch, demo_batch] \<noteq> []"
    by (simp_all add: demo_loader_def)
  have x: "train_model demo_framework failing_loader demo_loader 2 (1 / 200000) = Inl ?e"
    using t1 l1 by blast
  have y: "train_model demo_framework demo_loader failing_loader 2 (1 / 200000) = Inl ?e"
    using t2 l1(1,3) l2 by blast
  have "\<not> isl (DetectionDataset_init demo_files demo_loads train_labels img_dir)"
    by code_simp
  then obtain d1 where
    i1: "DetectionDataset_init demo_files demo_loads train_labels img_dir = Inr d1"
    by (auto simp: isl_def) (metis sum.exhaust)
  have i2: "DetectionDataset_init demo_files demo_loads test_labels img_dir = Inl JSONDecodeError"
    using a by (simp add: test_labels_def img_dir_def)
  have z: "script demo_files demo_loads demo_DataLoader demo_framework = Inl JSONDecodeError"
    using t[where files = demo_files and e = JSONDecodeError and ?d1.0 = d1] i1 i2 by blast
  have "\<not> isl (DetectionDataset_init demo_files_ok demo_loads train_labels img_dir)"
    "\<not> isl (DetectionDataset_init demo_files_ok demo_loads test_labels img_dir)"
    by code_simp+
  then obtain d1' d2' where
    k1: "DetectionDataset_init demo_files_ok demo_loads train_labels img_dir = Inr d1'"
    and k2: "DetectionDataset_init demo_files_ok demo_loads test_labels img_dir = Inr d2'"
    by (auto simp: isl_def) (metis sum.exhaust)
  note t3 = t[where files = demo_files_ok and e = ?e and ?d1.0 = d1' and ?d2.0 = d2'
      and trn = failing_loader and vld = demo_loader and epochs = global_epochs
      and lr = global_learning_rate]
  have ge: "0 < global_epochs" by (simp add: global_epochs_def)
  have "train_model demo_framework failing_loader demo_loader global_epochs global_learning_rate = Inl ?e"
    using t3 ge l1(2,3) by blast
  then have "train_model demo_framework (demo_DataLoader d1' BATCH_SIZE True)
      (demo_DataLoader d2' BATCH_SIZE False) global_epochs global_learning_rate = Inl ?e"
    by (simp add: demo_DataLoader_def)
  then have w: "script demo_files_ok demo_loads demo_DataLoader demo_framework = Inl ?e"
    using t3 k1 k2 by blast
  have fb: "demo_files_bad ''./annotations/train.jsonl'' = Some [demo_bad_line]"
    by (simp add: demo_files_bad_def)
  have pb: "\<exists>l\<in>set [demo_bad_line]. demo_loads l = None"
    by code_simp
  note t4 = errors_propagate[where files = demo_files_bad and path = "''./annotations/train.jsonl''"
      and lines = "[demo_bad_line]" and loads = demo_loads and dir = "''./images''"
      and e = JSONDecodeError and DataLoader = demo_DataLoader and fw = demo_framework]
  have "DetectionDataset_init demo_files_bad demo_loads ''./annotations/train.jsonl'' ''./images''
          = Inl JSONDecodeError"
    using t4 fb pb by blast
  then have "DetectionDataset_init demo_files_bad demo_loads train_labels img_dir = Inl JSONDecodeError"
    by (simp add: train_labels_def img_dir_def)
  then have v: "script demo_files_bad demo_loads demo_DataLoader demo_framework = Inl JSONDecodeError"
    using t4 by blast
  show ?thesis using a g d x y v z w by blast
qed

text \<open>
  C3. When every line of the annotation file parses, the dataset holds the parsed
  objects of the lines, one per line and in file order, and its length is the number of
  lines. For an index in range whose line is an object with a string under \<open>image\<close> and
  values under \<open>prefix\<close> and \<open>suffix\<close>, and whose image opens,
  \<^verbatim>\<open>DetectionDataset.__getitem__\<close> returns the prefix, the suffix and the image opened from
  \<^verbatim>\<open>os.path.join(image_directory_path, entry['image'])\<close>, the one path it opens.
\<close>

theorem dataset_one_entry_per_line:
  assumes "files path = Some lines" and "\<forall>l\<in>set lines. loads l \<noteq> None"
  shows "\<exists>ds. DetectionDataset_init files loads path dir = Inr ds
     \<and> map Some (entries (dataset ds)) = map loads lines
     \<and> (\<forall>log. fst (DetectionDataset_len \<lparr>self = ds, opened = log\<rparr>) = int (length lines))
     \<and> (\<forall>idx log entry name p s img.
           0 \<le> idx \<and> idx < int (length lines)
           \<and> loads (lines ! nat idx) = Some entry
           \<and> subscript entry ''image'' = Inr (JStr name)
           \<and> subscript entry ''prefix'' = Inr p
           \<and> subscript entry ''suffix'' = Inr s
           \<and> image_open (os_path_join dir name) = Inr img
         \<longrightarrow> DetectionDataset_getitem image_open idx \<lparr>self = ds, opened = log\<rparr>
               = (Inr (p, s, img), \<lparr>self = ds, opened = log @ [os_path_join dir name]\<rparr>))"
proof -
  from load_entries_ok[of files path lines loads, OF assms] obtain es where
    le: "load_entries files loads path = Inr es" and es: "map Some es = map loads lines"
    by blast
  let ?j = "\<lparr>jsonl_file_path = path, image_directory_path = dir, entries = es\<rparr>"
  let ?ds = "\<lparr>dataset = ?j\<rparr>"
  have init: "DetectionDataset_init files loads path dir = Inr ?ds"
    using le by (simp add: DetectionDataset_init_def JSONLDataset_init_def)
  have len: "length es = length lines" using es by (metis length_map)
  have dlen: "fst (DetectionDataset_len \<lparr>self = ?ds, opened = log\<rparr>) = int (length lines)" for log
    using len by (simp add: DetectionDataset_len_def JSONLDataset_len_def inner_def)
  have get: "DetectionDataset_getitem image_open idx \<lparr>self = ?ds, opened = log\<rparr>
               = (Inr (p, s, img), \<lparr>self = ?ds, opened = log @ [os_path_join dir name]\<rparr>)"
    if h: "0 \<le> idx" "idx < int (length lines)" "loads (lines ! nat idx) = Some entry"
      "subscript entry ''image'' = Inr (JStr name)" "subscript entry ''prefix'' = Inr p"
      "subscript entry ''suffix'' = Inr s" "image_open (os_path_join dir name) = Inr img"
    for idx log entry name p s img
  proof -
    have i: "nat idx < length lines" using h(1,2) by simp
    have "map Some es ! nat idx = map loads lines ! nat idx" using es by simp
    then have e: "es ! nat idx = entry" using i len h(3) by simp
    let ?ist = "inner \<lparr>self = ?ds, opened = log\<rparr>"
    have "JSONLDataset_getitem image_open idx ?ist
          = (Inr (img, entry), ?ist\<lparr>opened := opened ?ist @ [os_path_join dir name]\<rparr>)"
      using getitem_ok[of idx ?ist name image_open img] h e len by (simp add: inner_def)
    then show ?thesis
      using h(5,6) by (simp add: DetectionDataset_getitem_def inner_def outer_def)
  qed
  show ?thesis
    using init es dlen get by (intro exI[of _ ?ds]) (simp; blast)
qed

theorem dataset_one_entry_per_line_witness:
  "\<exists>ds. DetectionDataset_init demo_files demo_loads ''./annotations/train.jsonl'' ''./images'' = Inr ds
     \<and> length (entries (dataset ds)) = 2
     \<and> fst (DetectionDataset_len \<lparr>self = ds, opened = []\<rparr>) = 2
     \<and> DetectionDataset_getitem demo_image_open 0 \<lparr>self = ds, opened = []\<rparr>
        = (Inr (JStr ''<OD>'', JStr ''cat<loc_1><loc_2><loc_3><loc_4>'', ''pixels of a.jpg''),
           \<lparr>self = ds, opened = [''./images/a.jpg'']\<rparr>)"
proof -
  have f: "demo_files ''./annotations/train.jsonl'' = Some [demo_line1, demo_line2]"
    by (simp add: demo_files_def)
  have p: "\<forall>l\<in>set [demo_line1, demo_line2]. demo_loads l \<noteq> None"
    by (simp add: demo_loads_def)
  from dataset_one_entry_per_line[where files = demo_files and path = "''./annotations/train.jsonl''"
      and lines = "[demo_line1, demo_line2]" and loads = demo_loads and dir = "''./images''"
      and image_open = demo_image_open, OF f p]
  obtain ds where
    i: "DetectionDataset_init demo_files demo_loads ''./annotations/train.jsonl'' ''./images'' = Inr ds"
    and e: "map Some (entries (dataset ds)) = map demo_loads [demo_line1, demo_line2]"
    and n: "\<forall>log. fst (DetectionDataset_len \<lparr>self = ds, opened = log\<rparr>) = int (length [demo_line1, demo_line2])"
    and g: "\<forall>idx log entry name p s img.
           0 \<le> idx \<and> idx < int (length [demo_line1, demo_line2])
           \<and> demo_loads ([demo_line1, demo_line2] ! nat idx) = Some entry
           \<and> subscript entry ''image'' = Inr (JStr name)
           \<and> subscript entry ''prefix'' = Inr p
           \<and> subscript entry ''suffix'' = Inr s
           \<and> demo_image_open (os_path_join ''./images'' name) = Inr img
         \<longrightarrow> DetectionDataset_getitem demo_image_open idx \<lparr>self = ds, opened = log\<rparr>
               = (Inr (p, s, img), \<lparr>self = ds, opened = log @ [os_path_join ''./images'' name]\<rparr>)"
    by blast
  have l: "length (entries (dataset ds)) = 2" using e by (metis length_map length_Cons list.size(3) numeral_2_eq_2)
  have j: "os_path_join ''./images'' ''a.jpg'' = ''./images/a.jpg''" by code_simp
  have o: "demo_image_open ''./images/a.jpg'' = Inr ''pixels of a.jpg''" by code_simp
  have h: "demo_loads ([demo_line1, demo_line2] ! nat 0) = Some (entries (self demo_dataset) ! 0)"
    by (simp add: demo_loads_def)
  have s: "subscript (entries (self demo_dataset) ! 0) ''image'' = Inr (JStr ''a.jpg'')"
    "subscript (entries (self demo_dataset) ! 0) ''prefix'' = Inr (JStr ''<OD>'')"
    "subscript (entries (self demo_dataset) ! 0) ''suffix'' = Inr (JStr ''cat<loc_1><loc_2><loc_3><loc_4>'')"
    by (simp_all add: demo_dataset_def)
  have "DetectionDataset_getitem demo_image_open 0 \<lparr>self = ds, opened = []\<rparr>
        = (Inr (JStr ''<OD>'', JStr ''cat<loc_1><loc_2><loc_3><loc_4>'', ''pixels of a.jpg''),
           \<lparr>self = ds, opened = [] @ [os_path_join ''./images'' ''a.jpg'']\<rparr>)"
    using g[rule_format, of 0 "entries (self demo_dataset) ! 0" "''a.jpg''" "JStr ''<OD>''"
             "JStr ''cat<loc_1><loc_2><loc_3><loc_4>''" "''pixels of a.jpg''" "[]"] h s j o
    by simp
  then show ?thesis using i l n j by (intro exI[of _ ds]) simp
qed

text \<open>
  C4 as amended. For every batch that is not empty, \<^verbatim>\<open>collate_fn\<close> returns the pair of
  the processor's encoding of the prefixes and the images of the batch, in batch order,
  and of the suffixes of the batch, in the same order and as they are. The loops
  tokenize these answers later: the body of the training loop and that of the validation
  loop hand them to the tokenizer and pass the result to the model as the labels.
\<close>

theorem collate_fn_nonempty:
  assumes "batch \<noteq> []"
  shows "\<exists>inputs answers. collate_fn processor batch = Inr (inputs, answers)
     \<and> inputs = processor (map fst batch) (map (snd \<circ> snd) batch)
     \<and> answers = map (fst \<circ> snd) batch
     \<and> (\<exists>l. trace (val_batch fw st (inputs, answers))
              = trace st @ [Tokenize answers,
                  Forward (input_ids inputs) (pixel_values inputs) (tokenizer fw answers) l])
     \<and> (\<forall>n st'. train_batch fw n tst (inputs, answers) = Inr st' \<longrightarrow>
           (\<exists>l. trace st' = trace tst @ [AccumulateEnter, Tokenize answers,
                  Forward (input_ids inputs) (pixel_values inputs) (tokenizer fw answers) l,
                  Backward l, OptimizerStep, SchedulerStep, ZeroGrad, AccumulateExit]))"
  using assms
  by (auto simp: collate_fn_def Let_def val_batch_def train_batch_def split: if_splits)

theorem collate_fn_nonempty_witness:
  "collate_fn demo_processor demo_items
     = Inr (\<lparr>input_ids = 2, pixel_values = 2\<rparr>,
            [JStr ''cat<loc_1><loc_2><loc_3><loc_4>'', JStr ''dog<loc_5><loc_6><loc_7><loc_8>''])
   \<and> (\<exists>st' l. train_batch demo_framework 2 demo_state
                  (\<lparr>input_ids = 2, pixel_values = 2\<rparr>,
                   [JStr ''cat<loc_1><loc_2><loc_3><loc_4>'', JStr ''dog<loc_5><loc_6><loc_7><loc_8>''])
                = Inr st'
        \<and> trace st' = [AccumulateEnter,
              Tokenize [JStr ''cat<loc_1><loc_2><loc_3><loc_4>'', JStr ''dog<loc_5><loc_6><loc_7><loc_8>''],
              Forward 2 2 2 l, Backward l, OptimizerStep, SchedulerStep, ZeroGrad, AccumulateExit])"
proof -
  let ?answers = "[JStr ''cat<loc_1><loc_2><loc_3><loc_4>'', JStr ''dog<loc_5><loc_6><loc_7><loc_8>'']"
  let ?inputs = "\<lparr>input_ids = 2, pixel_values = 2\<rparr> :: (nat, nat) inputs"
  have ne: "demo_items \<noteq> []" by (simp add: demo_items_def)
  from collate_fn_nonempty[OF ne, of demo_processor demo_framework demo_state demo_state]
  obtain inputs answers where
    c: "collate_fn demo_processor demo_items = Inr (inputs, answers)"
    and i: "inputs = demo_processor (map fst demo_items) (map (snd \<circ> snd) demo_items)"
    and a: "answers = map (fst \<circ> snd) demo_items"
    and t: "\<forall>n st'. train_batch demo_framework n demo_state (inputs, answers) = Inr st' \<longrightarrow>
           (\<exists>l. trace st' = trace demo_state @ [AccumulateEnter, Tokenize answers,
                  Forward (input_ids inputs) (pixel_values inputs) (tokenizer demo_framework answers) l,
                  Backward l, OptimizerStep, SchedulerStep, ZeroGrad, AccumulateExit])"
    by blast
  have i': "inputs = ?inputs" using i by (simp add: demo_processor_def demo_items_def)
  have a': "answers = ?answers" using a by (simp add: demo_items_def)
  have "\<not> isl (train_batch demo_framework 2 demo_state (?inputs, ?answers))"
    by code_simp
  then obtain st' where r: "train_batch demo_framework 2 demo_state (?inputs, ?answers) = Inr st'"
    by (auto simp: isl_def) (metis sum.exhaust)
  from t[rule_format, of 2 st'] r i' a' obtain l where
    "trace st' = trace demo_state @ [AccumulateEnter, Tokenize ?answers,
        Forward (input_ids ?inputs) (pixel_values ?inputs) (tokenizer demo_framework ?answers) l,
        Backward l, OptimizerStep, SchedulerStep, ZeroGrad, AccumulateExit]"
    by auto
  then have "trace st' = [AccumulateEnter, Tokenize ?answers, Forward 2 2 2 l, Backward l,
        OptimizerStep, SchedulerStep, ZeroGrad, AccumulateExit]"
    by (simp add: demo_state_def demo_framework_def)
  then show ?thesis using c i' a' r by blast
qed

text \<open>
  C4 as stated fails on the empty batch: \<^verbatim>\<open>zip(*batch)\<close> yields nothing, the unpacking
  into three names raises \<^verbatim>\<open>ValueError\<close>, and no pair is returned.
\<close>

theorem collate_fn_empty_batch_counterexample:
  "collate_fn demo_processor [] = Inl ValueError
   \<and> \<not> (\<exists>inputs answers. collate_fn demo_processor [] = Inr (inputs, answers))"
  by (simp add: collate_fn_def)

text \<open>
  C5. The scheduler is created once, with the name \<open>linear\<close>, 12 warmup steps and
  \<open>epochs * len(train_loader)\<close> training steps. \<^verbatim>\<open>lr_scheduler.step()\<close> is called once
  per training batch, so in a run that completes, over a loader that yields
  \<^verbatim>\<open>len(train_loader)\<close> batches in every epoch, the number of calls is the configured
  total.
\<close>

theorem scheduler_steps_total:
  assumes "train_model fw trn vld epochs lr = Inr st"
    and "\<forall>k<epochs. length (loader_iter trn k) = loader_len trn"
  shows "schedulers (trace st) = [(''linear'', 12, epochs * loader_len trn)]
       \<and> scheduler_steps (trace st) = epochs * loader_len trn"
proof -
  from train_model_Inr[OF assms(1)] obtain rs where
    ok: "list_all2 (epoch_ok trn vld) [0..<epochs] rs"
    and tr: "trace st = prologue epochs (loader_len trn) lr @ concat (map2 (epoch_events fw) [0..<epochs] rs)"
    by blast
  have "(\<Sum>e\<leftarrow>[0..<epochs]. length (loader_iter trn e)) = (\<Sum>e\<leftarrow>[0..<epochs]. loader_len trn)"
    using assms(2) by (intro arg_cong[where f=sum_list] map_cong) auto
  also have "\<dots> = epochs * loader_len trn" by (simp add: sum_list_triv)
  finally show ?thesis
    using epochs_proj[OF ok, of fw] tr
    by (simp add: schedulers_append scheduler_steps_append prologue_proj)
qed

theorem scheduler_steps_total_witness:
  "\<exists>st. train_model demo_framework demo_loader demo_loader 2 (1 / 200000) = Inr st
     \<and> schedulers (trace st) = [(''linear'', 12, 4)]
     \<and> scheduler_steps (trace st) = 4"
proof -
  have "\<not> isl (train_model demo_framework demo_loader demo_loader 2 (1 / 200000))"
    by code_simp
  then obtain st where run: "train_model demo_framework demo_loader demo_loader 2 (1 / 200000) = Inr st"
    by (auto simp: isl_def) (metis sum.exhaust)
  have coh: "\<forall>k<2. length (loader_iter demo_loader k) = loader_len demo_loader"
    by (simp add: demo_loader_def)
  show ?thesis using scheduler_steps_total[OF run coh] run by (simp add: demo_loader_def)
qed

text \<open>
  C6. The calls of a run that completes are: the creation of the optimizer and of the
  scheduler and \<^verbatim>\<open>accelerator.prepare\<close>; then, for the epochs \<open>0, 1, ...\<close> in increasing
  order, the events of the epoch. Those are \<^verbatim>\<open>model.train()\<close>; for every training batch
  in the order of the loader the forward pass with its loss, the backward pass, the
  optimizer step, the scheduler step and the zeroing of the gradients; the print of the
  average; \<^verbatim>\<open>model.eval()\<close> and, under \<^verbatim>\<open>no_grad\<close>, the forward pass of every validation
  batch; then the checkpoint of the epoch. The events of an epoch are contiguous, so no
  phase of a later epoch starts before the earlier epoch has saved its checkpoint.
\<close>

theorem training_order:
  assumes "train_model fw trn vld epochs lr = Inr st"
  shows "\<exists>rs. list_all2 (epoch_ok trn vld) [0..<epochs] rs
        \<and> trace st = prologue epochs (loader_len trn) lr
                       @ concat (map2 (epoch_events fw) [0..<epochs] rs)"
  using train_model_Inr[OF assms] by blast

theorem training_order_witness:
  "\<exists>st rs. train_model demo_framework demo_loader demo_loader 2 (1 / 200000) = Inr st
     \<and> length rs = 2
     \<and> trace st = [CreateOptimizer (1 / 200000), GetScheduler ''linear'' 12 4, Prepare]
                    @ epoch_events demo_framework 0 (rs ! 0)
                    @ epoch_events demo_framework 1 (rs ! 1)"
proof -
  have "\<not> isl (train_model demo_framework demo_loader demo_loader 2 (1 / 200000))"
    by code_simp
  then obtain st where run: "train_model demo_framework demo_loader demo_loader 2 (1 / 200000) = Inr st"
    by (auto simp: isl_def) (metis sum.exhaust)
  from training_order[OF run] obtain rs where
    ok: "list_all2 (epoch_ok demo_loader demo_loader) [0..<2] rs"
    and tr: "trace st = prologue 2 (loader_len demo_loader) (1 / 200000)
                       @ concat (map2 (epoch_events demo_framework) [0..<2] rs)"
    by blast
  have len: "length rs = 2" using ok by (auto dest: list_all2_lengthD)
  then obtain r0 r1 where rs: "rs = [r0, r1]"
    by (metis (no_types, opaque_lifting) length_0_conv length_Suc_conv numeral_2_eq_2)
  have u: "[0..<2] = [0, Suc 0]" by (simp add: upt_conv_Cons)
  have "trace st = [CreateOptimizer (1 / 200000), GetScheduler ''linear'' 12 4, Prepare]
                    @ epoch_events demo_framework 0 (rs ! 0)
                    @ epoch_events demo_framework 1 (rs ! 1)"
    using tr rs u by (simp add: prologue_def demo_loader_def)
  then show ?thesis using run len by blast
qed

text \<open>
  C8. For every index outside \<open>[0, len(entries))\<close>, \<^verbatim>\<open>JSONLDataset.__getitem__\<close> raises
  \<^verbatim>\<open>IndexError\<close>: a negative index is rejected, not counted from the end, and the state
  is left as it was, so no path has been handed to \<^verbatim>\<open>Image.open\<close>.
\<close>

theorem getitem_out_of_range:
  "idx < 0 \<or> idx \<ge> int (length (entries (self st))) \<Longrightarrow>
   JSONLDataset_getitem image_open idx st = (Inl (IndexError ''Index out of range''), st)"
  by (simp add: JSONLDataset_getitem_def)

theorem getitem_out_of_range_witness:
  "JSONLDataset_getitem (\<lambda>p. Inr p) (- 1) demo_dataset
     = (Inl (IndexError ''Index out of range''), demo_dataset)
   \<and> JSONLDataset_getitem (\<lambda>p. Inr p) 2 demo_dataset
     = (Inl (IndexError ''Index out of range''), demo_dataset)"
  using getitem_out_of_range[of "- 1" demo_dataset "\<lambda>p. Inr p"]
        getitem_out_of_range[of 2 demo_dataset "\<lambda>p. Inr p"]
  by (simp add: demo_dataset_def)



text \<open>
  C10. \<^verbatim>\<open>__len__\<close> and \<^verbatim>\<open>__getitem__\<close> of \<^verbatim>\<open>JSONLDataset\<close>, and the wrappers of
  \<^verbatim>\<open>DetectionDataset\<close>, leave the object as it was. So after any sequence of such calls
  the length is the same, an access returns what it returned before (under the same
  \<^verbatim>\<open>Image.open\<close>), and two accesses with the same index that both return, whatever the
  images on disk, return the same prefix and suffix.
\<close>

theorem dataset_unchanged:
  "self (snd (JSONLDataset_len jst)) = self jst
   \<and> self (snd (JSONLDataset_getitem image_open idx jst)) = self jst
   \<and> self (snd (DetectionDataset_len st)) = self st
   \<and> self (snd (DetectionDataset_getitem image_open idx st)) = self st
   \<and> self (do_calls cs st) = self st
   \<and> fst (DetectionDataset_len (do_calls cs st)) = fst (DetectionDataset_len st)
   \<and> fst (DetectionDataset_getitem image_open idx (do_calls cs st))
       = fst (DetectionDataset_getitem image_open idx st)
   \<and> (fst (DetectionDataset_getitem image_open idx st) = Inr (p, s, img)
        \<and> fst (DetectionDataset_getitem image_open' idx (do_calls cs st)) = Inr (p', s', img')
      \<longrightarrow> p' = p \<and> s' = s)"
proof -
  have same: "self (do_calls cs st) = self st" by (rule do_calls_self)
  have fields: "p' = p \<and> s' = s"
    if a: "fst (DetectionDataset_getitem image_open idx st) = Inr (p, s, img)"
    and b: "fst (DetectionDataset_getitem image_open' idx (do_calls cs st)) = Inr (p', s', img')"
  proof -
    from dgetitem_fields[OF a] dgetitem_fields[OF b] same show ?thesis by simp
  qed
  show ?thesis
    using same fields dlen_result_self[OF same] dgetitem_result_self[OF same, of image_open idx]
    by (simp add: len_self getitem_self dlen_self dgetitem_self)
qed

theorem dataset_unchanged_witness:
  "self (do_calls [CallGetitem demo_image_open 0, CallLen, CallGetitem demo_image_open 5]
           \<lparr>self = \<lparr>dataset = self demo_dataset\<rparr>, opened = []\<rparr>)
     = \<lparr>dataset = self demo_dataset\<rparr>
   \<and> fst (DetectionDataset_getitem demo_image_open 0
           \<lparr>self = \<lparr>dataset = self demo_dataset\<rparr>, opened = []\<rparr>)
     = Inr (JStr ''<OD>'', JStr ''cat<loc_1><loc_2><loc_3><loc_4>'', ''pixels of a.jpg'')
   \<and> (\<exists>img'. fst (DetectionDataset_getitem (\<lambda>p. Inr (''other pixels'')) 0
       (do_calls [CallGetitem demo_image_open 0, CallLen, CallGetitem demo_image_open 5]
           \<lparr>self = \<lparr>dataset = self demo_dataset\<rparr>, opened = []\<rparr>))
     = Inr (JStr ''<OD>'', JStr ''cat<loc_1><loc_2><loc_3><loc_4>'', img'))"
proof -
  let ?st = "\<lparr>self = \<lparr>dataset = self demo_dataset\<rparr>, opened = []\<rparr>"
  let ?cs = "[CallGetitem demo_image_open 0, CallLen, CallGetitem demo_image_open 5]"
  let ?io = "\<lambda>p::string. Inr (''other pixels'') :: error + string"
  let ?p = "JStr ''<OD>''"
  let ?s = "JStr ''cat<loc_1><loc_2><loc_3><loc_4>''"
  have a: "fst (DetectionDataset_getitem demo_image_open 0 ?st) = Inr (?p, ?s, ''pixels of a.jpg'')"
    by code_simp
  have "\<not> isl (fst (DetectionDataset_getitem ?io 0 (do_calls ?cs ?st)))"
    by code_simp
  then obtain p' s' img' where
    b: "fst (DetectionDataset_getitem ?io 0 (do_calls ?cs ?st)) = Inr (p', s', img')"
    by (auto simp: isl_def) (metis sum.exhaust prod.exhaust)
  note t = dataset_unchanged[where st = ?st and cs = ?cs and image_open = demo_image_open
      and idx = 0 and image_open' = ?io and p = ?p and s = ?s and img = "''pixels of a.jpg''"
      and p' = p' and s' = s' and img' = img']
  note t5 = t[THEN conjunct2, THEN conjunct2, THEN conjunct2, THEN conjunct2, THEN conjunct1]
  note t8 = t[THEN conjunct2, THEN conjunct2, THEN conjunct2, THEN conjunct2, THEN conjunct2,
              THEN conjunct2, THEN conjunct2]
  have c: "self (do_calls ?cs ?st) = \<lparr>dataset = self demo_dataset\<rparr>"
    using t5 by simp
  have "p' = ?p \<and> s' = ?s"
    using t8 a b by (rule mp[OF _ conjI])
  then have "fst (DetectionDataset_getitem ?io 0 (do_calls ?cs ?st)) = Inr (?p, ?s, img')"
    using b by simp
  then have "\<exists>img'. fst (DetectionDataset_getitem ?io 0 (do_calls ?cs ?st)) = Inr (?p, ?s, img')"
    by (rule exI)
  with c a show ?thesis by (intro conjI)
qed

end
